theory Spec2Isabelle
  imports Main
begin

section \<open>Data model (licenses/models.py)\<close>

text \<open>
  A \<open>DateTimeField\<close> value is a point on a linear time axis, modelled as an integer
  (microseconds since the epoch). \<open>timezone.now()\<close> is passed to every operation as
  the argument \<open>now\<close>. Primary keys are natural numbers.
\<close>

type_synonym time = int

text \<open>\<open>License.STATUS_CHOICES\<close>, in the order of the source.\<close>

datatype license_status = Valid | Suspended | Cancelled | Expired | Pending | Renewed

fun status_str :: "license_status \<Rightarrow> string" where
  "status_str Valid = ''valid''"
| "status_str Suspended = ''suspended''"
| "status_str Cancelled = ''cancelled''"
| "status_str Expired = ''expired''"
| "status_str Pending = ''pending''"
| "status_str Renewed = ''renewed''"

text \<open>The models \<open>Product\<close>, \<open>LicenseKey\<close>, \<open>License\<close> and \<open>Activation\<close>, with the fields the
  lifecycle, seat and activation code reads or writes. Foreign keys hold the primary key
  of the row they point to.\<close>

record product =
  pid :: nat
  slug :: string

record licensekey =
  kid :: nat
  key :: string
  customer_email :: string
  key_is_active :: bool

record license =
  lid :: nat
  license_key_id :: nat
  product_id :: nat
  status :: license_status
  seats :: nat
  expiration_date :: time
  original_expiration_date :: "time option"
  renewal_count :: nat
  suspension_reason :: string
  cancellation_reason :: string
  cancelled_at :: "time option"
  suspended_at :: "time option"
  created_at :: time

record activation =
  aid :: nat
  license_id :: nat
  instance_identifier :: string
  instance_type :: string
  is_active :: bool
  activated_at :: time
  deactivated_at :: "time option"
  deactivation_reason :: string

text \<open>The store: one list of rows per table, and the next value of the auto-increment
  primary key of the activations table.\<close>

record database =
  products :: "product list"
  license_keys :: "licensekey list"
  licenses :: "license list"
  activations :: "activation list"
  next_activation_id :: nat

text \<open>Exceptions the code raises. \<open>ValueError\<close> carries its message; the other three are
  raised by the ORM: \<open>DoesNotExist\<close> and \<open>MultipleObjectsReturned\<close> by \<open>get\<close>, and
  \<open>IntegrityError\<close> by an insert that violates a uniqueness constraint.\<close>

datatype error = ValueError string | DoesNotExist | MultipleObjectsReturned | IntegrityError

text \<open>The requesting user (users/models.py), with the fields the views read.\<close>

record user =
  email :: string
  is_license_admin :: bool
  is_staff :: bool

section \<open>ORM queries\<close>

text \<open>\<open>QuerySet.get\<close> on the rows a filter selected: the row when there is exactly one,
  \<open>DoesNotExist\<close> when there is none, \<open>MultipleObjectsReturned\<close> otherwise.
  \<open>QuerySet.first\<close>: the first row or \<open>None\<close>.\<close>

fun objects_get :: "'a list \<Rightarrow> error + 'a" where
  "objects_get [] = Inl DoesNotExist"
| "objects_get [x] = Inr x"
| "objects_get (x # y # zs) = Inl MultipleObjectsReturned"

fun first :: "'a list \<Rightarrow> 'a option" where
  "first [] = None"
| "first (x # xs) = Some x"

text \<open>The joins the filters follow: \<open>license__license_key__customer_email\<close> and
  \<open>product__slug\<close>. A foreign key that points to no row joins with nothing.\<close>

definition license_customer_email :: "database \<Rightarrow> license \<Rightarrow> string option" where
  "license_customer_email db l =
     map_option customer_email (find (\<lambda>k. kid k = license_key_id l) (license_keys db))"

definition license_product_slug :: "database \<Rightarrow> license \<Rightarrow> string option" where
  "license_product_slug db l =
     map_option slug (find (\<lambda>p. pid p = product_id l) (products db))"

definition activation_customer_email :: "database \<Rightarrow> activation \<Rightarrow> string option" where
  "activation_customer_email db a =
     (case find (\<lambda>l. lid l = license_id a) (licenses db) of
        None \<Rightarrow> None
      | Some l \<Rightarrow> license_customer_email db l)"

text \<open>\<open>Model.save\<close> of an object read from the store: the row with its primary key
  is overwritten.\<close>

definition save_license :: "database \<Rightarrow> license \<Rightarrow> database" where
  "save_license db l =
     db\<lparr>licenses := map (\<lambda>x. if lid x = lid l then l else x) (licenses db)\<rparr>"

definition save_activation :: "database \<Rightarrow> activation \<Rightarrow> database" where
  "save_activation db a =
     db\<lparr>activations := map (\<lambda>x. if aid x = aid a then a else x) (activations db)\<rparr>"

section \<open>Seat ledger: \<open>License.available_seats\<close>\<close>

text \<open>\<open>self.activations.filter(is_active=True)\<close>: the rows of the activations table
  that point to this license and are active. The query runs against the store each time
  the property is read.\<close>

definition active_activations :: "database \<Rightarrow> license \<Rightarrow> activation list" where
  "active_activations db l =
     filter (\<lambda>a. license_id a = lid l \<and> is_active a) (activations db)"

definition used_seats :: "database \<Rightarrow> license \<Rightarrow> nat" where
  "used_seats db l = length (active_activations db l)"

text \<open>\<open>max(0, self.seats - used_seats)\<close> on Python's unbounded integers.\<close>

definition available_seats :: "database \<Rightarrow> license \<Rightarrow> int" where
  "available_seats db l = max 0 (int (seats l) - int (used_seats db l))"

section \<open>Lifecycle engine: \<open>License.renew\<close>, \<open>suspend\<close>, \<open>resume\<close>, \<open>cancel\<close>\<close>

text \<open>Each method either raises \<open>ValueError\<close> before it has assigned any field
  (\<open>Inl\<close>), or assigns the fields and saves the object (\<open>Inr\<close>, the object as saved).
  The \<open>reason\<close> argument of \<open>renew\<close> is accepted and never used.\<close>

definition renew :: "license \<Rightarrow> time \<Rightarrow> string option \<Rightarrow> error + license" where
  "renew self new_expiration_date reason =
     (if status self \<notin> {Valid, Expired}
      then Inl (ValueError (''Cannot renew license with status: '' @ status_str (status self)))
      else
        let self1 = (if original_expiration_date self = None
                     then self\<lparr>original_expiration_date := Some (expiration_date self)\<rparr>
                     else self)
        in Inr (self1\<lparr>expiration_date := new_expiration_date,
                       renewal_count := renewal_count self1 + 1,
                       status := Renewed\<rparr>))"



definition cancel :: "license \<Rightarrow> string \<Rightarrow> time \<Rightarrow> error + license" where
  "cancel self reason now =
     (if status self \<in> {Cancelled, Expired}
      then Inl (ValueError (''Cannot cancel license with status: '' @ status_str (status self)))
      else Inr (self\<lparr>status := Cancelled,
                      cancellation_reason := reason,
                      cancelled_at := Some now\<rparr>))"

text \<open>\<open>License.is_expired\<close>: \<open>timezone.now() > self.expiration_date\<close>.\<close>

definition is_expired :: "license \<Rightarrow> time \<Rightarrow> bool" where
  "is_expired self now \<longleftrightarrow> now > expiration_date self"

section \<open>Lifecycle endpoints: \<open>LicenseViewSet\<close> (licenses/views.py)\<close>

text \<open>\<open>LicenseViewSet.get_queryset\<close>: a license admin or staff user sees every license,
  any other user the licenses whose key carries the user's e-mail address.
  \<open>get_object\<close> looks the primary key up in that queryset and answers 404 when it is
  not there.\<close>

definition license_queryset :: "database \<Rightarrow> user \<Rightarrow> license list" where
  "license_queryset db u =
     (if is_license_admin u \<or> is_staff u then licenses db
      else filter (\<lambda>l. license_customer_email db l = Some (email u)) (licenses db))"

definition get_license_object :: "database \<Rightarrow> user \<Rightarrow> nat \<Rightarrow> license option" where
  "get_license_object db u pk = find (\<lambda>l. lid l = pk) (license_queryset db u)"

text \<open>What a lifecycle endpoint answers: 404 from \<open>get_object\<close>, a validation error of
  the request, \<open>{'success': False, 'error': str(e)}\<close> with status 400 for the
  \<open>ValueError\<close> of the model method, or success with the serialized license. Only
  \<open>ValueError\<close> is caught: any other exception leaves the view uncaught.\<close>

datatype lifecycle_response =
    Http404
  | ValidationError400
  | Failure400 string
  | Success200 license
  | Uncaught error

text \<open>The endpoints receive the request data after the field checks of the serializer
  (presence, type, length); the check of \<open>validate_new_expiration_date\<close>
  (\<open>value <= timezone.now()\<close> is rejected) is the first step of \<open>renew\<close> here.
  Each one calls the model method and turns its \<open>ValueError\<close> into the 400 answer;
  the store changes only through the method's \<open>save\<close>.\<close>

definition method_response ::
  "database \<Rightarrow> error + license \<Rightarrow> database \<times> lifecycle_response" where
  "method_response db r =
     (case r of
        Inr l' \<Rightarrow> (save_license db l', Success200 l')
      | Inl (ValueError msg) \<Rightarrow> (db, Failure400 msg)
      | Inl e \<Rightarrow> (db, Uncaught e))"




definition LicenseViewSet_cancel ::
  "database \<Rightarrow> user \<Rightarrow> nat \<Rightarrow> string \<Rightarrow> time \<Rightarrow> database \<times> lifecycle_response" where
  "LicenseViewSet_cancel db u pk reason now =
     (case get_license_object db u pk of
        None \<Rightarrow> (db, Http404)
      | Some license_obj \<Rightarrow> method_response db (cancel license_obj reason now))"



section \<open>Activations: \<open>Activation.deactivate\<close> and \<open>ActivationViewSet\<close>\<close>

text \<open>\<open>Activation.deactivate\<close> never raises: it clears the flag, stamps the time and
  stores \<open>reason or ''\<close>; the caller saves the result.\<close>

definition deactivate :: "activation \<Rightarrow> string option \<Rightarrow> time \<Rightarrow> activation" where
  "deactivate self reason now =
     self\<lparr>is_active := False,
          deactivated_at := Some now,
          deactivation_reason := (case reason of None \<Rightarrow> [] | Some r \<Rightarrow> r)\<rparr>"

definition activation_queryset :: "database \<Rightarrow> user \<Rightarrow> activation list" where
  "activation_queryset db u =
     (if is_license_admin u \<or> is_staff u then activations db
      else filter (\<lambda>a. activation_customer_email db a = Some (email u)) (activations db))"

datatype deactivate_response =
    ActivationNotFound404
  | AlreadyDeactivated400
  | Deactivated200 activation

definition ActivationViewSet_deactivate ::
  "database \<Rightarrow> user \<Rightarrow> nat \<Rightarrow> string option \<Rightarrow> time \<Rightarrow> database \<times> deactivate_response" where
  "ActivationViewSet_deactivate db u pk reason now =
     (case find (\<lambda>a. aid a = pk) (activation_queryset db u) of
        None \<Rightarrow> (db, ActivationNotFound404)
      | Some activation \<Rightarrow>
          if \<not> is_active activation then (db, AlreadyDeactivated400)
          else let activation' = deactivate activation reason now
               in (save_activation db activation', Deactivated200 activation'))"







section \<open>License service: \<open>LicenseServiceViewSet.activate\<close> and \<open>check_status\<close>\<close>

text \<open>The endpoints receive the request data after the field checks of the serializer;
  \<open>validate_license_key\<close> of the two request serializers rejects a key of fewer than
  ten characters.\<close>

definition validate_license_key :: "string \<Rightarrow> bool" where
  "validate_license_key v \<longleftrightarrow> \<not> (v = [] \<or> length v < 10)"

text \<open>\<open>LicenseKey.objects.get(key=license_key, is_active=True)\<close>.\<close>

definition get_license_key :: "database \<Rightarrow> string \<Rightarrow> error + licensekey" where
  "get_license_key db license_key =
     objects_get (filter (\<lambda>k. key k = license_key \<and> key_is_active k) (license_keys db))"

text \<open>The filter both endpoints put on the key's licenses:
  \<open>status='valid', expiration_date__gt=timezone.now()\<close>.\<close>

definition valid_unexpired :: "license \<Rightarrow> time \<Rightarrow> bool" where
  "valid_unexpired l now \<longleftrightarrow> status l = Valid \<and> expiration_date l > now"

text \<open>\<open>license_key_obj.licenses.get(product__slug=product_slug, status='valid',
  expiration_date__gt=timezone.now())\<close>.\<close>

definition get_valid_license ::
  "database \<Rightarrow> licensekey \<Rightarrow> string \<Rightarrow> time \<Rightarrow> error + license" where
  "get_valid_license db license_key_obj product_slug now =
     objects_get (filter (\<lambda>l. license_key_id l = kid license_key_obj \<and>
                              license_product_slug db l = Some product_slug \<and>
                              valid_unexpired l now)
                         (licenses db))"

text \<open>The default ordering of activations, \<open>['-activated_at']\<close>: latest first (rows
  with equal time stamps keep their order in the table).\<close>

definition order_by_activated_at_desc :: "activation list \<Rightarrow> activation list" where
  "order_by_activated_at_desc xs = sort_key (\<lambda>a. - activated_at a) xs"

text \<open>\<open>Activation.objects.filter(license=license_obj,
  instance_identifier=instance_identifier, is_active=True).first()\<close>.\<close>

definition existing_activation :: "database \<Rightarrow> license \<Rightarrow> string \<Rightarrow> activation option" where
  "existing_activation db license_obj instance =
     first (order_by_activated_at_desc
              (filter (\<lambda>a. license_id a = lid license_obj \<and>
                            instance_identifier a = instance \<and> is_active a)
                      (activations db)))"

text \<open>\<open>Activation.objects.create(license, instance_identifier, instance_type)\<close>. The
  table has \<open>unique_together = ['license', 'instance_identifier']\<close>: the insert raises
  \<open>IntegrityError\<close> when a row with the same license and instance identifier exists,
  active or not. Otherwise the row gets the next primary key, \<open>is_active = True\<close>,
  \<open>activated_at = now\<close> and the field defaults.\<close>

definition create_activation ::
  "database \<Rightarrow> nat \<Rightarrow> string \<Rightarrow> string \<Rightarrow> time \<Rightarrow> error + database \<times> activation" where
  "create_activation db license_pk instance itype now =
     (if \<exists>a \<in> set (activations db). license_id a = license_pk \<and> instance_identifier a = instance
      then Inl IntegrityError
      else
        let activation = \<lparr>aid = next_activation_id db, license_id = license_pk,
                           instance_identifier = instance, instance_type = itype,
                           is_active = True, activated_at = now,
                           deactivated_at = None, deactivation_reason = []\<rparr>
        in Inr (db\<lparr>activations := activations db @ [activation],
                   next_activation_id := next_activation_id db + 1\<rparr>, activation))"

text \<open>The answers of \<open>activate\<close>: 400 for a request the serializer rejects, 404 for the
  key, 404 for the license, success with the
  existing activation's id, 400 for the seats, and success with the new activation's id
  and the \<open>available_seats\<close> value of the response.\<close>

datatype activate_response =
    InvalidRequest400
  | InvalidKey404
  | NoValidLicense404
  | AlreadyActivated200 nat
  | NoAvailableSeats400
  | Activated200 nat int

text \<open>\<open>activate\<close> in the three parts the source runs one after the other.
  \<open>activate_locate\<close>: the two \<open>get\<close> calls, whose \<open>DoesNotExist\<close> is caught and
  answered with 404 (\<open>MultipleObjectsReturned\<close> is not caught).
  \<open>activate_check\<close>: the existing-activation check and the seat check, both queries
  outside any transaction; \<open>None\<close> means the request goes on to the insert.
  \<open>activate_create\<close>: the insert inside \<open>transaction.atomic()\<close> and the response, whose
  \<open>available_seats\<close> is \<open>license_obj.available_seats - 1\<close>, read after the insert.\<close>

definition activate_locate ::
  "database \<Rightarrow> string \<Rightarrow> string \<Rightarrow> time \<Rightarrow> error + (activate_response + license)" where
  "activate_locate db license_key product_slug now =
     (case get_license_key db license_key of
        Inl e \<Rightarrow> if e = DoesNotExist then Inr (Inl InvalidKey404) else Inl e
      | Inr license_key_obj \<Rightarrow>
          (case get_valid_license db license_key_obj product_slug now of
             Inl e \<Rightarrow> if e = DoesNotExist then Inr (Inl NoValidLicense404) else Inl e
           | Inr license_obj \<Rightarrow> Inr (Inr license_obj)))"

definition activate_check :: "database \<Rightarrow> license \<Rightarrow> string \<Rightarrow> activate_response option" where
  "activate_check db license_obj instance =
     (case existing_activation db license_obj instance of
        Some a \<Rightarrow> Some (AlreadyActivated200 (aid a))
      | None \<Rightarrow>
          if available_seats db license_obj \<le> 0 then Some NoAvailableSeats400 else None)"

definition activate_create ::
  "database \<Rightarrow> license \<Rightarrow> string \<Rightarrow> string \<Rightarrow> time \<Rightarrow> database \<times> (error + activate_response)" where
  "activate_create db license_obj instance itype now =
     (case create_activation db (lid license_obj) instance itype now of
        Inl e \<Rightarrow> (db, Inl e)
      | Inr (db', activation) \<Rightarrow>
          (db', Inr (Activated200 (aid activation) (available_seats db' license_obj - 1))))"

definition activate ::
  "database \<Rightarrow> string \<Rightarrow> string \<Rightarrow> string \<Rightarrow> string \<Rightarrow> time
     \<Rightarrow> database \<times> (error + activate_response)" where
  "activate db license_key product_slug instance itype now =
     (if \<not> validate_license_key license_key then (db, Inr InvalidRequest400)
      else case activate_locate db license_key product_slug now of
        Inl e \<Rightarrow> (db, Inl e)
      | Inr (Inl response) \<Rightarrow> (db, Inr response)
      | Inr (Inr license_obj) \<Rightarrow>
          (case activate_check db license_obj instance of
             Some response \<Rightarrow> (db, Inr response)
           | None \<Rightarrow> activate_create db license_obj instance itype now))"

text \<open>\<open>check_status\<close>. The licenses of the key that pass the filter, in the default
  ordering of licenses (\<open>['-created_at']\<close>), narrowed to the product when
  \<open>product_slug\<close> is given and not empty.\<close>

definition order_by_created_at_desc :: "license list \<Rightarrow> license list" where
  "order_by_created_at_desc xs = sort_key (\<lambda>l. - created_at l) xs"

definition check_status_licenses ::
  "database \<Rightarrow> licensekey \<Rightarrow> string option \<Rightarrow> time \<Rightarrow> license list" where
  "check_status_licenses db license_key_obj product_slug now =
     (let licenses0 = filter (\<lambda>l. license_key_id l = kid license_key_obj \<and> valid_unexpired l now)
                             (order_by_created_at_desc (licenses db))
      in case product_slug of
           None \<Rightarrow> licenses0
         | Some s \<Rightarrow> if s = [] then licenses0
                     else filter (\<lambda>l. license_product_slug db l = Some s) licenses0)"

text \<open>The entry of the response for one license, and the \<open>instance_info\<close> dictionary.
  The product and brand names, read from columns that are not part of this model, are
  left out. \<open>data_instance_info\<close> is \<open>None\<close> when the response has no such key (no
  instance identifier in the request) and \<open>Some None\<close> when the key holds \<open>None\<close>.\<close>

record instance_info =
  info_instance_identifier :: string
  info_instance_type :: string
  info_activated_at :: time

record license_data =
  data_status :: license_status
  data_seats :: nat
  data_available_seats :: int
  data_expiration_date :: time
  data_is_expired :: bool
  data_instance_info :: "instance_info option option"

datatype check_status_response =
    CheckInvalidRequest400
  | CheckInvalidKey404
  | CheckNoValidLicenses404
  | CheckValid200 string string "license_data list"

definition check_instance_info ::
  "database \<Rightarrow> license list \<Rightarrow> string \<Rightarrow> instance_info option" where
  "check_instance_info db ls instance =
     map_option (\<lambda>a. \<lparr>info_instance_identifier = instance_identifier a,
                         info_instance_type = instance_type a,
                         info_activated_at = activated_at a\<rparr>)
       (first (order_by_activated_at_desc
                 (filter (\<lambda>a. license_id a \<in> lid ` set ls \<and>
                               instance_identifier a = instance \<and> is_active a)
                         (activations db))))"

definition check_license_data ::
  "database \<Rightarrow> time \<Rightarrow> instance_info option option \<Rightarrow> license \<Rightarrow> license_data" where
  "check_license_data db now info license_obj =
     \<lparr>data_status = status license_obj,
      data_seats = seats license_obj,
      data_available_seats = available_seats db license_obj,
      data_expiration_date = expiration_date license_obj,
      data_is_expired = is_expired license_obj now,
      data_instance_info = info\<rparr>"

definition check_status ::
  "database \<Rightarrow> string \<Rightarrow> string option \<Rightarrow> string option \<Rightarrow> time
     \<Rightarrow> error + check_status_response" where
  "check_status db license_key product_slug instance now =
     (if \<not> validate_license_key license_key then Inr CheckInvalidRequest400
      else case get_license_key db license_key of
        Inl e \<Rightarrow> if e = DoesNotExist then Inr CheckInvalidKey404 else Inl e
      | Inr license_key_obj \<Rightarrow>
          let ls = check_status_licenses db license_key_obj product_slug now in
          if ls = [] then Inr CheckNoValidLicenses404
          else
            let info = (case instance of
                          None \<Rightarrow> None
                        | Some i \<Rightarrow> if i = [] then None
                                    else Some (check_instance_info db ls i))
            in Inr (CheckValid200 license_key (customer_email license_key_obj)
                      (map (check_license_data db now info) ls)))"

section \<open>Example data\<close>

text \<open>A store with one product, one key and one license with a single seat, expiring at
  time 100, and no activation. The examples below vary the license's status and the
  activations.\<close>

definition example_product :: product where
  "example_product = \<lparr>pid = 1, slug = ''test-product''\<rparr>"

definition example_key :: licensekey where
  "example_key = \<lparr>kid = 1, key = ''TEST-LICENSE-KEY-12345'',
                    customer_email = ''test@example.com'', key_is_active = True\<rparr>"

definition example_license :: license where
  "example_license =
     \<lparr>lid = 1, license_key_id = 1, product_id = 1, status = Valid, seats = 1,
      expiration_date = 100, original_expiration_date = None, renewal_count = 0,
      suspension_reason = [], cancellation_reason = [], cancelled_at = None,
      suspended_at = None, created_at = 0\<rparr>"

definition example_db :: database where
  "example_db =
     \<lparr>products = [example_product], license_keys = [example_key],
      licenses = [example_license], activations = [], next_activation_id = 1\<rparr>"

definition example_user :: user where
  "example_user = \<lparr>email = ''test@example.com'', is_license_admin = False, is_staff = False\<rparr>"

text \<open>The activation of the example license by one instance, and the store after that
  activation and after its deactivation at time 60.\<close>

definition example_activation :: activation where
  "example_activation =
     \<lparr>aid = 1, license_id = 1, instance_identifier = ''https://test.example.com'',
      instance_type = ''website'', is_active = True, activated_at = 10,
      deactivated_at = None, deactivation_reason = []\<rparr>"

definition example_db_activated :: database where
  "example_db_activated =
     example_db\<lparr>activations := [example_activation], next_activation_id := 2\<rparr>"

definition example_db_deactivated :: database where
  "example_db_deactivated =
     example_db\<lparr>activations :=
                  [example_activation\<lparr>is_active := False, deactivated_at := Some 60,
                                       deactivation_reason := ''site moved''\<rparr>],
                next_activation_id := 2\<rparr>"


section \<open>Outcome of one item of a bulk deactivation\<close>



section \<open>The operations of the system on the store\<close>




section \<open>Clients\<close>


section \<open>Concurrent \<open>activate\<close> requests\<close>

text \<open>
  Several request handlers run \<open>activate\<close> against one store. A handler has received its
  request (\<open>Received\<close>), or has located the license and passed the existing-activation and
  seat checks (\<open>Checked\<close>), or has answered (\<open>Responded\<close>). One step of a handler is one
  of the two parts of the view: everything up to the seat check, whose queries run outside
  any transaction, and the insert inside \<open>transaction.atomic()\<close> with the response. The
  store is read and written by one step at a time; a schedule names the handler that
  takes the next step. Each step here is coarser than the single queries of the source,
  so every schedule of this model is an order in which the queries can really run.
\<close>

record activate_request =
  req_license_key :: string
  req_product_slug :: string
  req_instance_identifier :: string
  req_instance_type :: string

datatype handler_state =
    Received activate_request
  | Checked activate_request license
  | Responded "error + activate_response"

fun handler_step :: "database \<Rightarrow> time \<Rightarrow> handler_state \<Rightarrow> database \<times> handler_state" where
  "handler_step db now (Received r) =
     (if \<not> validate_license_key (req_license_key r) then (db, Responded (Inr InvalidRequest400))
      else case activate_locate db (req_license_key r) (req_product_slug r) now of
        Inl e \<Rightarrow> (db, Responded (Inl e))
      | Inr (Inl response) \<Rightarrow> (db, Responded (Inr response))
      | Inr (Inr license_obj) \<Rightarrow>
          (case activate_check db license_obj (req_instance_identifier r) of
             Some response \<Rightarrow> (db, Responded (Inr response))
           | None \<Rightarrow> (db, Checked r license_obj)))"
| "handler_step db now (Checked r license_obj) =
     (case activate_create db license_obj (req_instance_identifier r) (req_instance_type r) now of
        (db', result) \<Rightarrow> (db', Responded result))"
| "handler_step db now (Responded result) = (db, Responded result)"

fun run_schedule ::
  "time \<Rightarrow> nat list \<Rightarrow> database \<times> handler_state list \<Rightarrow> database \<times> handler_state list" where
  "run_schedule now [] st = st"
| "run_schedule now (k # ks) (db, hs) =
     (if k < length hs
      then case handler_step db now (hs ! k) of
             (db', h') \<Rightarrow> run_schedule now ks (db', hs[k := h'])
      else run_schedule now ks (db, hs))"

text \<open>Three requests for three instances on the example license with two seats.\<close>

definition example_request :: "string \<Rightarrow> activate_request" where
  "example_request instance =
     \<lparr>req_license_key = ''TEST-LICENSE-KEY-12345'', req_product_slug = ''test-product'',
      req_instance_identifier = instance, req_instance_type = ''website''\<rparr>"

definition example_db_two_seats :: database where
  "example_db_two_seats = example_db\<lparr>licenses := [example_license\<lparr>seats := 2\<rparr>]\<rparr>"

section \<open>Evaluation and query lemmas\<close>

lemmas example_defs =
  example_product_def example_key_def example_license_def example_db_def example_user_def
  example_activation_def example_db_activated_def example_db_deactivated_def

lemmas activate_defs =
  activate_def validate_license_key_def activate_locate_def get_license_key_def
  get_valid_license_def valid_unexpired_def license_product_slug_def activate_check_def
  existing_activation_def order_by_activated_at_desc_def available_seats_def used_seats_def
  active_activations_def activate_create_def create_activation_def Let_def






lemma activate_locate_early_response:
  "activate_locate db license_key product_slug now = Inr (Inl r) \<Longrightarrow>
     r = InvalidKey404 \<or> r = NoValidLicense404"
  by (auto simp: activate_locate_def split: sum.splits if_splits)

lemma create_activation_used_seats:
  assumes "create_activation db (lid l) instance itype now = Inr (db', a)"
  shows "used_seats db' l = used_seats db l + 1"
  using assms
  by (auto simp: create_activation_def Let_def used_seats_def active_activations_def
      split: if_splits)

lemmas check_status_defs =
  check_status_def check_status_licenses_def order_by_created_at_desc_def
  check_instance_info_def check_license_data_def is_expired_def

lemma objects_get_DoesNotExist_iff: "objects_get xs = Inl DoesNotExist \<longleftrightarrow> xs = []"
  by (cases xs rule: objects_get.cases) simp_all

lemma objects_get_Inr_mem: "objects_get xs = Inr x \<Longrightarrow> x \<in> set xs"
  by (cases xs rule: objects_get.cases) simp_all







lemma objects_get_Inr_iff: "objects_get xs = Inr x \<longleftrightarrow> xs = [x]"
  by (cases xs rule: objects_get.cases) auto






















text \<open>A handler that runs alone computes \<open>activate\<close>.\<close>

lemma handler_alone_is_activate:
  "run_schedule now [0, 0] (db, [Received r]) =
     (case activate db (req_license_key r) (req_product_slug r)
             (req_instance_identifier r) (req_instance_type r) now of
        (db', result) \<Rightarrow> (db', [Responded result]))"
  by (auto simp: activate_def split: sum.splits option.splits prod.splits)



lemma objects_get_Multiple_iff:
  "objects_get xs = Inl MultipleObjectsReturned \<longleftrightarrow> 2 \<le> length xs"
  by (cases xs rule: objects_get.cases) simp_all

section \<open>Seat ledger properties\<close>

text \<open>
  Claim C1. For every license and every state of the store, \<open>available_seats\<close> is
  \<open>max(0, seats - n)\<close> where \<open>n\<close> is the number of activations of that license whose
  \<open>is_active\<close> flag is set in the store it is evaluated against (it is a function of the
  store and the license, with no cached counter), and it lies in the range \<open>[0, seats]\<close>.
\<close>

theorem available_seats_range:
  "available_seats db l =
     max 0 (int (seats l) -
            int (length (filter (\<lambda>a. license_id a = lid l \<and> is_active a) (activations db))))
   \<and> 0 \<le> available_seats db l
   \<and> available_seats db l \<le> int (seats l)"
  by (simp add: available_seats_def used_seats_def active_activations_def)

section \<open>Lifecycle properties\<close>

text \<open>
  Claim C3 as the spec states it: \<open>renew\<close> is legal from \<open>renewed\<close>, so that a second
  renewal after a first one succeeds and brings the counter to 2. In the code the first
  renewal of a valid license (expiration 100, renewed to 130) leaves the status
  \<open>renewed\<close>, and the second call (to 160) raises
  \<open>ValueError("Cannot renew license with status: renewed")\<close>.
\<close>

theorem renew_twice_counterexample:
  "renew example_license 130 None =
     Inr (example_license\<lparr>original_expiration_date := Some 100, expiration_date := 130,
                           renewal_count := 1, status := Renewed\<rparr>)
   \<and> renew (example_license\<lparr>original_expiration_date := Some 100, expiration_date := 130,
                              renewal_count := 1, status := Renewed\<rparr>) 160 None =
     Inl (ValueError ''Cannot renew license with status: renewed'')"
  by (simp add: renew_def example_license_def)

text \<open>
  Claim C3, amended. \<open>renew(new_expiration, reason)\<close> succeeds exactly when the stored
  status is \<open>valid\<close> or \<open>expired\<close>. On success it sets the expiration to the new
  value, copies the old expiration into the original expiration when none is stored yet,
  increments the renewal counter and sets the status to \<open>renewed\<close>. From every other
  stored status (\<open>renewed\<close>, \<open>suspended\<close>, \<open>cancelled\<close>, \<open>pending\<close>) it fails with a
  \<open>ValueError\<close> that names the current status; in particular a renewal that directly
  follows a successful one fails.
\<close>

theorem renew_legal_from_valid_or_expired:
  "(status l = Valid \<or> status l = Expired \<longrightarrow>
      renew l d r =
        Inr (l\<lparr>original_expiration_date :=
                  (case original_expiration_date l of
                     None \<Rightarrow> Some (expiration_date l) | Some t \<Rightarrow> Some t),
               expiration_date := d,
               renewal_count := renewal_count l + 1,
               status := Renewed\<rparr>))
   \<and> (status l \<noteq> Valid \<and> status l \<noteq> Expired \<longrightarrow>
      renew l d r =
        Inl (ValueError (''Cannot renew license with status: '' @ status_str (status l))))
   \<and> (\<forall>l'. renew l d r = Inr l' \<longrightarrow>
      renew l' d' r' = Inl (ValueError ''Cannot renew license with status: renewed''))"
  by (cases "original_expiration_date l") (auto simp: renew_def Let_def)

theorem renew_legal_from_valid_or_expired_witness:
  "status example_license = Valid
   \<and> renew example_license 130 None =
       Inr (example_license\<lparr>original_expiration_date := Some 100, expiration_date := 130,
                             renewal_count := 1, status := Renewed\<rparr>)
   \<and> status (example_license\<lparr>status := Suspended\<rparr>) \<noteq> Valid
   \<and> status (example_license\<lparr>status := Suspended\<rparr>) \<noteq> Expired
   \<and> renew (example_license\<lparr>status := Suspended\<rparr>) 130 None =
       Inl (ValueError ''Cannot renew license with status: suspended'')
   \<and> renew (example_license\<lparr>original_expiration_date := Some 100, expiration_date := 130,
                              renewal_count := 1, status := Renewed\<rparr>) 160 None =
       Inl (ValueError ''Cannot renew license with status: renewed'')"
  using renew_legal_from_valid_or_expired [of example_license 130 None 160 None]
        renew_legal_from_valid_or_expired [of "example_license\<lparr>status := Suspended\<rparr>" 130 None 160 None]
  by (simp add: example_license_def)

text \<open>
  Claim C4 as the spec states it: \<open>cancel\<close> succeeds from every status except
  \<open>cancelled\<close>. In the code a license whose stored status is \<open>expired\<close> cannot be
  cancelled: the method raises \<open>ValueError("Cannot cancel license with status: expired")\<close>.
\<close>

theorem cancel_expired_counterexample:
  "cancel (example_license\<lparr>status := Expired\<rparr>) ''no longer needed'' 50 =
     Inl (ValueError ''Cannot cancel license with status: expired'')"
  by (simp add: cancel_def example_license_def)

text \<open>
  Claim C4, amended. \<open>cancel(reason)\<close> succeeds from every stored status except
  \<open>cancelled\<close> and \<open>expired\<close> (so from \<open>valid\<close>, \<open>renewed\<close>, \<open>suspended\<close> and
  \<open>pending\<close>), setting the status to \<open>cancelled\<close> and recording the reason and the
  time. On a license that is already cancelled, or whose stored status is \<open>expired\<close>,
  it fails with a \<open>ValueError\<close> naming the status, and the cancel endpoint leaves the
  store as it was.
\<close>

theorem cancel_legal_unless_cancelled_or_expired:
  "(status l \<noteq> Cancelled \<and> status l \<noteq> Expired \<longrightarrow>
      cancel l reason now =
        Inr (l\<lparr>status := Cancelled, cancellation_reason := reason, cancelled_at := Some now\<rparr>))
   \<and> (status l = Cancelled \<or> status l = Expired \<longrightarrow>
      cancel l reason now =
        Inl (ValueError (''Cannot cancel license with status: '' @ status_str (status l))))
   \<and> (\<forall>l0. get_license_object db u pk = Some l0 \<and> (status l0 = Cancelled \<or> status l0 = Expired) \<longrightarrow>
      LicenseViewSet_cancel db u pk reason now =
        (db, Failure400 (''Cannot cancel license with status: '' @ status_str (status l0))))"
  by (auto simp: cancel_def LicenseViewSet_cancel_def method_response_def)

theorem cancel_legal_unless_cancelled_or_expired_witness:
  "cancel example_license ''refund'' 50 =
     Inr (example_license\<lparr>status := Cancelled, cancellation_reason := ''refund'',
                           cancelled_at := Some 50\<rparr>)
   \<and> cancel (example_license\<lparr>status := Cancelled\<rparr>) ''refund'' 50 =
     Inl (ValueError ''Cannot cancel license with status: cancelled'')
   \<and> get_license_object (example_db\<lparr>licenses := [example_license\<lparr>status := Cancelled\<rparr>]\<rparr>)
         example_user 1 = Some (example_license\<lparr>status := Cancelled\<rparr>)
   \<and> LicenseViewSet_cancel (example_db\<lparr>licenses := [example_license\<lparr>status := Cancelled\<rparr>]\<rparr>)
         example_user 1 ''refund'' 50 =
       (example_db\<lparr>licenses := [example_license\<lparr>status := Cancelled\<rparr>]\<rparr>,
        Failure400 ''Cannot cancel license with status: cancelled'')"
proof -
  let ?db = "example_db\<lparr>licenses := [example_license\<lparr>status := Cancelled\<rparr>]\<rparr>"
  have found: "get_license_object ?db example_user 1 = Some (example_license\<lparr>status := Cancelled\<rparr>)"
    by (simp add: get_license_object_def license_queryset_def license_customer_email_def
        example_db_def example_license_def example_user_def example_key_def)
  have valid: "status example_license \<noteq> Cancelled \<and> status example_license \<noteq> Expired"
    by (simp add: example_license_def)
  note thm1 = cancel_legal_unless_cancelled_or_expired
                [of example_license "''refund''" 50 ?db example_user 1]
  note thm2 = cancel_legal_unless_cancelled_or_expired
                [of "example_license\<lparr>status := Cancelled\<rparr>" "''refund''" 50 ?db example_user 1]
  from thm1 valid have c1: "cancel example_license ''refund'' 50 =
     Inr (example_license\<lparr>status := Cancelled, cancellation_reason := ''refund'',
                           cancelled_at := Some 50\<rparr>)"
    by blast
  from thm2 have c2: "cancel (example_license\<lparr>status := Cancelled\<rparr>) ''refund'' 50 =
     Inl (ValueError ''Cannot cancel license with status: cancelled'')"
    by simp
  from thm2 found have c3: "LicenseViewSet_cancel ?db example_user 1 ''refund'' 50 =
       (?db, Failure400 ''Cannot cancel license with status: cancelled'')"
    by simp
  from c1 c2 found c3 show ?thesis by simp
qed

section \<open>Activation protocol properties\<close>




text \<open>
  Claim C6: after the activation of a pair (license, instance) has been deactivated, a new
  \<open>activate\<close> call for the pair on an entitled license with a free seat succeeds and
  creates a fresh record. The code at that input: the first call on the example store
  creates activation 1, the deactivate endpoint deactivates it at time 60, the license
  has its seat free again, and the second \<open>activate\<close> call passes the existing-activation
  check (which looks at active rows only) and the seat check, and its insert raises
  \<open>IntegrityError\<close>, because \<open>unique_together = ['license', 'instance_identifier']\<close>
  counts the deactivated row. The exception is caught nowhere, and no record is created.
\<close>

theorem reactivate_after_deactivate_integrity_error:
  "activate example_db ''TEST-LICENSE-KEY-12345'' ''test-product''
       ''https://test.example.com'' ''website'' 10 =
     (example_db_activated, Inr (Activated200 1 (- 1)))
   \<and> ActivationViewSet_deactivate example_db_activated example_user 1 (Some ''site moved'') 60 =
     (example_db_deactivated,
      Deactivated200 (example_activation\<lparr>is_active := False, deactivated_at := Some 60,
                                          deactivation_reason := ''site moved''\<rparr>))
   \<and> available_seats example_db_deactivated example_license = 1
   \<and> activate example_db_deactivated ''TEST-LICENSE-KEY-12345'' ''test-product''
       ''https://test.example.com'' ''website'' 70 =
     (example_db_deactivated, Inl IntegrityError)"
  by (simp add: activate_defs example_defs ActivationViewSet_deactivate_def
      activation_queryset_def activation_customer_email_def license_customer_email_def
      deactivate_def save_activation_def)

text \<open>
  Claim C10. Whenever \<open>activate\<close> succeeds by creating a new activation, the
  \<open>available_seats\<close> value of its response is \<open>max(0, seats - n) - 1\<close>, where \<open>n\<close> is the
  number of active activations of the located license in the store after the insert (one
  more than before it): one less than the license's \<open>available_seats\<close> at that moment,
  and \<open>-1\<close> when the new activation took the last seat.
\<close>

theorem activate_response_available_seats:
  assumes "activate db license_key product_slug instance itype now =
             (db', Inr (Activated200 i n))"
  shows "\<exists>l. activate_locate db license_key product_slug now = Inr (Inr l)
           \<and> n = max 0 (int (seats l) - int (used_seats db' l)) - 1
           \<and> n = available_seats db' l - 1
           \<and> used_seats db' l = used_seats db l + 1
           \<and> (used_seats db' l = seats l \<longrightarrow> n = - 1)"
proof -
  from assms obtain l where
    loc: "activate_locate db license_key product_slug now = Inr (Inr l)" and
    chk: "activate_check db l instance = None" and
    cre: "activate_create db l instance itype now = (db', Inr (Activated200 i n))"
    by (auto simp: activate_def activate_check_def
        dest: activate_locate_early_response
        split: if_splits sum.splits option.splits)
  from cre obtain a where
    ins: "create_activation db (lid l) instance itype now = Inr (db', a)" and
    n: "n = available_seats db' l - 1"
    by (auto simp: activate_create_def split: sum.splits)
  have used: "used_seats db' l = used_seats db l + 1"
    by (rule create_activation_used_seats [OF ins])
  from n have "n = max 0 (int (seats l) - int (used_seats db' l)) - 1"
    by (simp add: available_seats_def)
  moreover from n have "used_seats db' l = seats l \<longrightarrow> n = - 1"
    by (simp add: available_seats_def)
  ultimately show ?thesis using loc n used by blast
qed

theorem activate_response_available_seats_witness:
  "activate example_db ''TEST-LICENSE-KEY-12345'' ''test-product''
       ''https://test.example.com'' ''website'' 10 =
     (example_db_activated, Inr (Activated200 1 (- 1)))
   \<and> available_seats example_db_activated example_license = 0
   \<and> used_seats example_db_activated example_license = seats example_license
   \<and> used_seats example_db_activated example_license = used_seats example_db example_license + 1"
proof -
  have run: "activate example_db ''TEST-LICENSE-KEY-12345'' ''test-product''
       ''https://test.example.com'' ''website'' 10 =
     (example_db_activated, Inr (Activated200 1 (- 1)))"
    by (simp add: activate_defs example_defs)
  have loc: "activate_locate example_db ''TEST-LICENSE-KEY-12345'' ''test-product'' 10 =
     Inr (Inr example_license)"
    by (simp add: activate_defs example_defs)
  from activate_response_available_seats [OF run] loc
  have "- 1 = available_seats example_db_activated example_license - 1
        \<and> used_seats example_db_activated example_license = used_seats example_db example_license + 1"
    by auto
  moreover have "used_seats example_db_activated example_license = seats example_license"
    by (simp add: activate_defs example_defs)
  ultimately show ?thesis using run by simp
qed

section \<open>Entitlement properties\<close>

text \<open>
  Claim C7 as the spec states it: a license is entitled when its status is \<open>valid\<close> or
  \<open>renewed\<close> and it has not expired. In the code both endpoints filter on
  \<open>status='valid'\<close> alone: the example license with status \<open>renewed\<close>, expiring at 100 and
  with its seat free, is at time 50 not found by \<open>activate\<close> (404 "No valid license found
  for this product") and not reported by \<open>check_status\<close> (404 "No valid licenses found
  for this key").
\<close>

theorem renewed_license_not_entitled_counterexample:
  "status (example_license\<lparr>status := Renewed\<rparr>) = Renewed
   \<and> expiration_date (example_license\<lparr>status := Renewed\<rparr>) > 50
   \<and> available_seats (example_db\<lparr>licenses := [example_license\<lparr>status := Renewed\<rparr>]\<rparr>)
        (example_license\<lparr>status := Renewed\<rparr>) = 1
   \<and> activate (example_db\<lparr>licenses := [example_license\<lparr>status := Renewed\<rparr>]\<rparr>)
        ''TEST-LICENSE-KEY-12345'' ''test-product'' ''https://test.example.com'' ''website'' 50 =
       (example_db\<lparr>licenses := [example_license\<lparr>status := Renewed\<rparr>]\<rparr>, Inr NoValidLicense404)
   \<and> check_status (example_db\<lparr>licenses := [example_license\<lparr>status := Renewed\<rparr>]\<rparr>)
        ''TEST-LICENSE-KEY-12345'' None None 50 = Inr CheckNoValidLicenses404"
  by (simp add: activate_defs check_status_defs example_defs)

text \<open>
  Claim C7, amended. A license is treated as entitled if and only if its stored status
  is \<open>valid\<close> and its expiration is in the future (a \<open>renewed\<close> license is not). For a
  key that resolves, \<open>check_status\<close> reports exactly the key's licenses that satisfy this
  predicate (narrowed to the product when a product slug is given), one entry of the
  response per such license, and answers 404 when there is none. \<open>activate\<close> answers
  404 exactly when no license of the key for the product satisfies the predicate, and
  its lookup locates a license exactly when that license is the only one of the key for
  the product that satisfies it (with two or more, the lookup raises
  \<open>MultipleObjectsReturned\<close>); for the located license the call returns the existing
  activation, fails with "No available seats" when \<open>available_seats\<close> is not positive,
  and goes on to the insert otherwise.
\<close>

theorem entitled_iff_valid_unexpired:
  assumes valid_key: "validate_license_key license_key"
    and key: "get_license_key db license_key = Inr k"
  shows "check_status_licenses db k filter_slug now =
           filter (\<lambda>l. license_key_id l = kid k
                        \<and> status l = Valid \<and> expiration_date l > now
                        \<and> (case filter_slug of None \<Rightarrow> True
                            | Some s \<Rightarrow> s = [] \<or> license_product_slug db l = Some s))
                  (order_by_created_at_desc (licenses db))
         \<and> set (check_status_licenses db k filter_slug now) =
           {l \<in> set (licenses db). license_key_id l = kid k
              \<and> status l = Valid \<and> expiration_date l > now
              \<and> (case filter_slug of None \<Rightarrow> True
                  | Some s \<Rightarrow> s = [] \<or> license_product_slug db l = Some s)}
         \<and> (check_status db license_key filter_slug instance' now = Inr CheckNoValidLicenses404
              \<longleftrightarrow> check_status_licenses db k filter_slug now = [])
         \<and> (check_status_licenses db k filter_slug now \<noteq> [] \<longrightarrow>
              check_status db license_key filter_slug instance' now =
                Inr (CheckValid200 license_key (customer_email k)
                       (map (check_license_data db now
                               (case instance' of
                                  None \<Rightarrow> None
                                | Some i \<Rightarrow>
                                    if i = [] then None
                                    else Some (check_instance_info db
                                           (check_status_licenses db k filter_slug now) i)))
                            (check_status_licenses db k filter_slug now))))
         \<and> (\<forall>entries. check_status db license_key filter_slug instance' now =
                         Inr (CheckValid200 license_key (customer_email k) entries) \<longrightarrow>
               length entries = length (check_status_licenses db k filter_slug now)
               \<and> (\<forall>d \<in> set entries. data_status d = Valid \<and> data_expiration_date d > now
                                      \<and> \<not> data_is_expired d))
         \<and> (activate db license_key product_slug instance itype now = (db, Inr NoValidLicense404)
              \<longleftrightarrow> \<not> (\<exists>l \<in> set (licenses db). license_key_id l = kid k
                       \<and> license_product_slug db l = Some product_slug
                       \<and> status l = Valid \<and> expiration_date l > now))
         \<and> (\<forall>l. activate_locate db license_key product_slug now = Inr (Inr l) \<longleftrightarrow>
                 filter (\<lambda>l. license_key_id l = kid k
                              \<and> license_product_slug db l = Some product_slug
                              \<and> status l = Valid \<and> expiration_date l > now)
                        (licenses db) = [l])
         \<and> (2 \<le> length (filter (\<lambda>l. license_key_id l = kid k
                                      \<and> license_product_slug db l = Some product_slug
                                      \<and> status l = Valid \<and> expiration_date l > now)
                                (licenses db)) \<longrightarrow>
              activate db license_key product_slug instance itype now =
                (db, Inl MultipleObjectsReturned))
         \<and> (\<forall>l. get_valid_license db k product_slug now = Inr l \<longrightarrow>
               l \<in> set (licenses db) \<and> license_key_id l = kid k
               \<and> license_product_slug db l = Some product_slug
               \<and> status l = Valid \<and> expiration_date l > now
               \<and> activate db license_key product_slug instance itype now =
                   (case existing_activation db l instance of
                      Some a \<Rightarrow> (db, Inr (AlreadyActivated200 (aid a)))
                    | None \<Rightarrow>
                        if available_seats db l \<le> 0 then (db, Inr NoAvailableSeats400)
                        else activate_create db l instance itype now))"
proof -
  let ?matches = "filter (\<lambda>l. license_key_id l = kid k \<and>
                              license_product_slug db l = Some product_slug \<and>
                              valid_unexpired l now) (licenses db)"
  let ?matches' = "filter (\<lambda>l. license_key_id l = kid k
                              \<and> license_product_slug db l = Some product_slug
                              \<and> status l = Valid \<and> expiration_date l > now)
                        (licenses db)"
  let ?ls = "check_status_licenses db k filter_slug now"
  have m: "?matches = ?matches'"
    by (simp add: valid_unexpired_def)
  have c0: "?ls =
           filter (\<lambda>l. license_key_id l = kid k
                        \<and> status l = Valid \<and> expiration_date l > now
                        \<and> (case filter_slug of None \<Rightarrow> True
                            | Some s \<Rightarrow> s = [] \<or> license_product_slug db l = Some s))
                  (order_by_created_at_desc (licenses db))"
    by (cases filter_slug)
       (auto simp: check_status_licenses_def valid_unexpired_def Let_def intro: filter_cong)
  have c1: "set ?ls =
           {l \<in> set (licenses db). license_key_id l = kid k
              \<and> status l = Valid \<and> expiration_date l > now
              \<and> (case filter_slug of None \<Rightarrow> True
                  | Some s \<Rightarrow> s = [] \<or> license_product_slug db l = Some s)}"
    unfolding c0 by (auto simp: order_by_created_at_desc_def)
  have c2: "check_status db license_key filter_slug instance' now = Inr CheckNoValidLicenses404
              \<longleftrightarrow> ?ls = []"
    using valid_key key by (simp add: check_status_def Let_def)
  let ?info = "case instance' of None \<Rightarrow> None
               | Some i \<Rightarrow> if i = [] then None else Some (check_instance_info db ?ls i)"
  have c2a: "check_status db license_key filter_slug instance' now =
                 Inr (CheckValid200 license_key (customer_email k)
                        (map (check_license_data db now ?info) ?ls))"
    if "?ls \<noteq> []"
    using valid_key key that by (simp add: check_status_def Let_def)
  have c2b: "length entries = length ?ls
               \<and> (\<forall>d \<in> set entries. data_status d = Valid \<and> data_expiration_date d > now
                                      \<and> \<not> data_is_expired d)"
    if resp: "check_status db license_key filter_slug instance' now =
                Inr (CheckValid200 license_key (customer_email k) entries)" for entries
  proof -
    from resp valid_key key have "?ls \<noteq> []"
      by (auto simp: check_status_def Let_def split: if_splits)
    from c2a [OF this] resp have
      entries: "entries = map (check_license_data db now ?info) ?ls"
      by simp
    have "status l = Valid \<and> expiration_date l > now" if "l \<in> set ?ls" for l
      using that unfolding c1 by simp
    then show ?thesis
      unfolding entries by (fastforce simp: check_license_data_def is_expired_def)
  qed
  have create_neq: "activate_create db l instance itype now \<noteq> (db, Inr NoValidLicense404)" for l
    by (auto simp: activate_create_def split: sum.splits)
  have check_neq: "activate_check db l instance \<noteq> Some NoValidLicense404" for l
    by (auto simp: activate_check_def split: option.splits)
  have c3: "activate db license_key product_slug instance itype now = (db, Inr NoValidLicense404)
              \<longleftrightarrow> ?matches = []"
  proof (cases "get_valid_license db k product_slug now")
    case (Inl e)
    then have "e = DoesNotExist \<longleftrightarrow> ?matches = []"
      using objects_get_DoesNotExist_iff [of ?matches]
      by (auto simp: get_valid_license_def)
    with Inl valid_key key show ?thesis
      by (auto simp: activate_def activate_locate_def)
  next
    case (Inr l)
    then have "?matches \<noteq> []"
      by (auto simp: get_valid_license_def)
    with Inr valid_key key create_neq [of l] check_neq [of l] show ?thesis
      by (auto simp: activate_def activate_locate_def split: option.splits)
  qed
  have c3': "?matches = [] \<longleftrightarrow>
       \<not> (\<exists>l \<in> set (licenses db). license_key_id l = kid k
                       \<and> license_product_slug db l = Some product_slug
                       \<and> status l = Valid \<and> expiration_date l > now)"
    by (auto simp: filter_empty_conv valid_unexpired_def)
  have get: "get_valid_license db k product_slug now = objects_get ?matches'"
    by (simp add: get_valid_license_def valid_unexpired_def)
  have c5: "activate_locate db license_key product_slug now = Inr (Inr l) \<longleftrightarrow> ?matches' = [l]"
    for l
    using key objects_get_Inr_iff [of ?matches' l]
    by (auto simp: activate_locate_def get split: sum.splits)
  have c6: "activate db license_key product_slug instance itype now =
                (db, Inl MultipleObjectsReturned)"
    if "2 \<le> length ?matches'"
  proof -
    from that have "get_valid_license db k product_slug now = Inl MultipleObjectsReturned"
      unfolding get by (simp add: objects_get_Multiple_iff)
    with valid_key key show ?thesis
      by (simp add: activate_def activate_locate_def)
  qed
  have c4: "l \<in> set (licenses db) \<and> license_key_id l = kid k
               \<and> license_product_slug db l = Some product_slug
               \<and> status l = Valid \<and> expiration_date l > now
               \<and> activate db license_key product_slug instance itype now =
                   (case existing_activation db l instance of
                      Some a \<Rightarrow> (db, Inr (AlreadyActivated200 (aid a)))
                    | None \<Rightarrow>
                        if available_seats db l \<le> 0 then (db, Inr NoAvailableSeats400)
                        else activate_create db l instance itype now)"
    if l: "get_valid_license db k product_slug now = Inr l" for l
  proof -
    from l have "l \<in> set ?matches"
      by (auto simp: get_valid_license_def dest: objects_get_Inr_mem)
    then have "l \<in> set (licenses db) \<and> license_key_id l = kid k
               \<and> license_product_slug db l = Some product_slug
               \<and> status l = Valid \<and> expiration_date l > now"
      by (simp add: valid_unexpired_def)
    moreover from l valid_key key
    have "activate db license_key product_slug instance itype now =
                   (case existing_activation db l instance of
                      Some a \<Rightarrow> (db, Inr (AlreadyActivated200 (aid a)))
                    | None \<Rightarrow>
                        if available_seats db l \<le> 0 then (db, Inr NoAvailableSeats400)
                        else activate_create db l instance itype now)"
      by (simp add: activate_def activate_locate_def activate_check_def split: option.splits)
    ultimately show ?thesis by blast
  qed
  show ?thesis
  proof (intro conjI)
    show "?ls = filter (\<lambda>l. license_key_id l = kid k
                        \<and> status l = Valid \<and> expiration_date l > now
                        \<and> (case filter_slug of None \<Rightarrow> True
                            | Some s \<Rightarrow> s = [] \<or> license_product_slug db l = Some s))
                  (order_by_created_at_desc (licenses db))" by (rule c0)
    show "set ?ls = {l \<in> set (licenses db). license_key_id l = kid k
              \<and> status l = Valid \<and> expiration_date l > now
              \<and> (case filter_slug of None \<Rightarrow> True
                  | Some s \<Rightarrow> s = [] \<or> license_product_slug db l = Some s)}" by (rule c1)
    show "check_status db license_key filter_slug instance' now = Inr CheckNoValidLicenses404
              \<longleftrightarrow> ?ls = []" by (rule c2)
    show "?ls \<noteq> [] \<longrightarrow>
              check_status db license_key filter_slug instance' now =
                 Inr (CheckValid200 license_key (customer_email k)
                        (map (check_license_data db now ?info) ?ls))" using c2a by blast
    show "\<forall>entries. check_status db license_key filter_slug instance' now =
                         Inr (CheckValid200 license_key (customer_email k) entries) \<longrightarrow>
               length entries = length ?ls
               \<and> (\<forall>d \<in> set entries. data_status d = Valid \<and> data_expiration_date d > now
                                      \<and> \<not> data_is_expired d)" using c2b by blast
    show "activate db license_key product_slug instance itype now = (db, Inr NoValidLicense404)
              \<longleftrightarrow> \<not> (\<exists>l \<in> set (licenses db). license_key_id l = kid k
                       \<and> license_product_slug db l = Some product_slug
                       \<and> status l = Valid \<and> expiration_date l > now)"
      using c3 c3' by blast
    show "\<forall>l. activate_locate db license_key product_slug now = Inr (Inr l) \<longleftrightarrow> ?matches' = [l]"
      using c5 by blast
    show "2 \<le> length ?matches' \<longrightarrow>
              activate db license_key product_slug instance itype now =
                (db, Inl MultipleObjectsReturned)" using c6 by blast
    show "\<forall>l. get_valid_license db k product_slug now = Inr l \<longrightarrow>
               l \<in> set (licenses db) \<and> license_key_id l = kid k
               \<and> license_product_slug db l = Some product_slug
               \<and> status l = Valid \<and> expiration_date l > now
               \<and> activate db license_key product_slug instance itype now =
                   (case existing_activation db l instance of
                      Some a \<Rightarrow> (db, Inr (AlreadyActivated200 (aid a)))
                    | None \<Rightarrow>
                        if available_seats db l \<le> 0 then (db, Inr NoAvailableSeats400)
                        else activate_create db l instance itype now)"
      using c4 by blast
  qed
qed

theorem entitled_iff_valid_unexpired_witness:
  "validate_license_key ''TEST-LICENSE-KEY-12345''
   \<and> get_license_key example_db_activated ''TEST-LICENSE-KEY-12345'' = Inr example_key
   \<and> set (check_status_licenses example_db_activated example_key None 50) = {example_license}
   \<and> check_status example_db_activated ''TEST-LICENSE-KEY-12345'' None None 50 =
       Inr (CheckValid200 ''TEST-LICENSE-KEY-12345'' ''test@example.com''
              [\<lparr>data_status = Valid, data_seats = 1, data_available_seats = 0,
                data_expiration_date = 100, data_is_expired = False,
                data_instance_info = None\<rparr>])
   \<and> activate example_db_activated ''TEST-LICENSE-KEY-12345'' ''test-product''
        ''https://other.example.com'' ''website'' 50 \<noteq> (example_db_activated, Inr NoValidLicense404)
   \<and> activate_locate example_db_activated ''TEST-LICENSE-KEY-12345'' ''test-product'' 50 =
        Inr (Inr example_license)
   \<and> get_valid_license example_db_activated example_key ''test-product'' 50 = Inr example_license
   \<and> activate example_db_activated ''TEST-LICENSE-KEY-12345'' ''test-product''
        ''https://other.example.com'' ''website'' 50 = (example_db_activated, Inr NoAvailableSeats400)
   \<and> activate (example_db\<lparr>licenses := [example_license, example_license\<lparr>lid := 2\<rparr>]\<rparr>)
        ''TEST-LICENSE-KEY-12345'' ''test-product'' ''https://test.example.com'' ''website'' 50 =
       (example_db\<lparr>licenses := [example_license, example_license\<lparr>lid := 2\<rparr>]\<rparr>,
        Inl MultipleObjectsReturned)"
proof -
  have vk: "validate_license_key ''TEST-LICENSE-KEY-12345''"
    by (simp add: validate_license_key_def)
  have key: "get_license_key example_db_activated ''TEST-LICENSE-KEY-12345'' = Inr example_key"
    by (simp add: get_license_key_def example_defs)
  have ms: "filter (\<lambda>l. license_key_id l = kid example_key
                 \<and> license_product_slug example_db_activated l = Some ''test-product''
                 \<and> status l = Valid \<and> expiration_date l > 50)
               (licenses example_db_activated) = [example_license]"
    by (simp add: license_product_slug_def example_defs)
  have lic: "get_valid_license example_db_activated example_key ''test-product'' 50 =
               Inr example_license"
    by (simp add: get_valid_license_def valid_unexpired_def license_product_slug_def example_defs)
  have ls: "filter (\<lambda>l. license_key_id l = kid example_key
                 \<and> status l = Valid \<and> expiration_date l > 50
                 \<and> (case None :: string option of None \<Rightarrow> True
                     | Some s \<Rightarrow> s = [] \<or> license_product_slug example_db_activated l = Some s))
               (order_by_created_at_desc (licenses example_db_activated)) = [example_license]"
    by (simp add: order_by_created_at_desc_def example_defs)
  have ex: "existing_activation example_db_activated example_license ''https://other.example.com'' = None"
    by (simp add: existing_activation_def order_by_activated_at_desc_def example_defs)
  have seats0: "available_seats example_db_activated example_license = 0"
    by (simp add: available_seats_def used_seats_def active_activations_def example_defs)
  note inst = entitled_iff_valid_unexpired [OF vk key, of None 50 None "''test-product''"
               "''https://other.example.com''" "''website''"]
  from inst ls have ls': "check_status_licenses example_db_activated example_key None 50 =
      [example_license]"
    by simp
  then have w1: "set (check_status_licenses example_db_activated example_key None 50) =
      {example_license}"
    by simp
  from inst ls' have "check_status example_db_activated ''TEST-LICENSE-KEY-12345'' None None 50 =
       Inr (CheckValid200 ''TEST-LICENSE-KEY-12345'' (customer_email example_key)
              [check_license_data example_db_activated 50 None example_license])"
    by simp
  then have w2: "check_status example_db_activated ''TEST-LICENSE-KEY-12345'' None None 50 =
       Inr (CheckValid200 ''TEST-LICENSE-KEY-12345'' ''test@example.com''
              [\<lparr>data_status = Valid, data_seats = 1, data_available_seats = 0,
                data_expiration_date = 100, data_is_expired = False,
                data_instance_info = None\<rparr>])"
    by (simp add: check_license_data_def is_expired_def seats0) (simp add: example_defs)
  from inst ms have w3: "activate_locate example_db_activated ''TEST-LICENSE-KEY-12345''
        ''test-product'' 50 = Inr (Inr example_license)"
    by simp
  from inst lic ex seats0 have w4: "activate example_db_activated ''TEST-LICENSE-KEY-12345''
        ''test-product'' ''https://other.example.com'' ''website'' 50 =
      (example_db_activated, Inr NoAvailableSeats400)"
    by simp
  let ?db2 = "example_db\<lparr>licenses := [example_license, example_license\<lparr>lid := 2\<rparr>]\<rparr>"
  have key2: "get_license_key ?db2 ''TEST-LICENSE-KEY-12345'' = Inr example_key"
    by (simp add: get_license_key_def example_defs)
  have ms2: "2 \<le> length (filter (\<lambda>l. license_key_id l = kid example_key
                 \<and> license_product_slug ?db2 l = Some ''test-product''
                 \<and> status l = Valid \<and> expiration_date l > 50)
               (licenses ?db2))"
    by (simp add: license_product_slug_def example_defs)
  from entitled_iff_valid_unexpired [OF vk key2, of None 50 None "''test-product''"
               "''https://test.example.com''" "''website''"] ms2
  have w5: "activate ?db2 ''TEST-LICENSE-KEY-12345'' ''test-product''
        ''https://test.example.com'' ''website'' 50 = (?db2, Inl MultipleObjectsReturned)"
    by blast
  from vk key w1 w2 w3 lic w4 w5 show ?thesis by simp
qed

section \<open>Bulk deactivation\<close>



section \<open>Status transitions\<close>




section \<open>Concurrent activation\<close>

text \<open>
  Claim C2: of N concurrent \<open>activate\<close> calls for distinct instances on a license with
  S < N seats exactly S succeed, because the seat check and the insert form one atomic
  unit. The code at the scenario of the spec (two seats, three requests): when the three
  handlers each run their checks before any of them inserts (schedule 0, 1, 2, 0, 1, 2),
  all three see a free seat, all three inserts succeed, and the license ends with three
  active activations on two seats; no call fails with "No available seats". Only when
  the handlers run one after the other (schedule 0, 0, 1, 1, 2, 2) does the third call
  fail. The seat check of the view lies outside its \<open>transaction.atomic()\<close> block, which
  holds the insert alone.
\<close>

theorem concurrent_activate_oversubscribes:
  "snd (run_schedule 10 [0, 1, 2, 0, 1, 2]
          (example_db_two_seats,
           [Received (example_request ''https://a.example.com''),
            Received (example_request ''https://b.example.com''),
            Received (example_request ''https://c.example.com'')])) =
     [Responded (Inr (Activated200 1 0)),
      Responded (Inr (Activated200 2 (- 1))),
      Responded (Inr (Activated200 3 (- 1)))]
   \<and> used_seats (fst (run_schedule 10 [0, 1, 2, 0, 1, 2]
          (example_db_two_seats,
           [Received (example_request ''https://a.example.com''),
            Received (example_request ''https://b.example.com''),
            Received (example_request ''https://c.example.com'')])))
        (example_license\<lparr>seats := 2\<rparr>) = 3
   \<and> seats (example_license\<lparr>seats := 2\<rparr>) = 2
   \<and> snd (run_schedule 10 [0, 0, 1, 1, 2, 2]
          (example_db_two_seats,
           [Received (example_request ''https://a.example.com''),
            Received (example_request ''https://b.example.com''),
            Received (example_request ''https://c.example.com'')])) =
     [Responded (Inr (Activated200 1 0)),
      Responded (Inr (Activated200 2 (- 1))),
      Responded (Inr NoAvailableSeats400)]"
  by (simp add: activate_defs example_defs example_request_def example_db_two_seats_def)

end
